theory Spec2Isabelle
  imports Complex_Main "HOL-Library.Multiset"
begin

section \<open>Cascade delay calculator (src/processing/cascade\_calculator.py)\<close>

text \<open>
  The engine reads the table \<open>raw_bts_flights\<close> through two SQL queries and turns the
  counts into a cost estimate in Python. The embedding follows the source step by step:
  the table is a list of rows, each common table expression of the cascade query is a
  list-valued function, and the Python arithmetic after the query is a chain of
  \<open>let\<close>s with the source's variable names.

  Numbers. Python floats and DuckDB DOUBLE columns are modelled as exact real
  numbers (\<open>real\<close>), Python ints and SQL integers as \<open>int\<close>: an arithmetic expression
  of the source denotes its exact value, with no binary rounding of intermediate results.
  The clock columns \<open>crsdeptime\<close> and \<open>crsarrtime\<close> hold HHMM integers.

  NULL. Every column is nullable (\<open>option\<close>, \<open>None\<close> is NULL). A WHERE clause keeps a
  row exactly when its predicate is TRUE, and a conjunction is TRUE exactly when every
  conjunct is; so each comparison is modelled by the boolean "the comparison is TRUE",
  which is \<open>False\<close> as soon as an operand is NULL.
\<close>

subsection \<open>Cost parameters\<close>

definition COST_PER_MINUTE_PASSENGER :: real where
  "COST_PER_MINUTE_PASSENGER = 74 / 100"

definition COST_PER_MINUTE_AIRLINE_OPS :: real where
  "COST_PER_MINUTE_AIRLINE_OPS = 6848 / 100"

definition AVG_LOAD_FACTOR :: real where
  "AVG_LOAD_FACTOR = 87 / 100"

definition AVG_SEATS_DOMESTIC :: int where
  "AVG_SEATS_DOMESTIC = 160"

subsection \<open>Data model\<close>

text \<open>A row of \<open>raw_bts_flights\<close>, restricted to the columns the queries read.\<close>

record flight =
  flightdate :: "string option"
  iata_code_reporting_airline :: "string option"
  flight_number_reporting_airline :: "int option"
  origin :: "string option"
  dest :: "string option"
  crsdeptime :: "int option"
  depdelayminutes :: "real option"
  crsarrtime :: "int option"
  arrdelayminutes :: "real option"
  cancelled :: "real option"

text \<open>A row of the CTE \<open>delayed_arrivals\<close>.\<close>

record delayed_arrival =
  da_airline :: "string option"
  da_arr_minutes :: "int option"
  da_arr_delay :: "real option"
  da_arrived_from :: "string option"

text \<open>A row of the CTE \<open>outbound_flights\<close>.\<close>

record outbound_flight =
  ob_airline :: "string option"
  ob_flight_num :: "int option"
  ob_outbound_dest :: "string option"
  ob_dep_minutes :: "int option"
  ob_depdelayminutes :: "real option"

text \<open>A row of the CTE \<open>cascade_matches\<close>.\<close>

record cascade_match =
  cm_outbound_dest :: "string option"
  cm_flight_num :: "int option"
  cm_depdelayminutes :: "real option"
  cm_inbound_delay :: "real option"
  cm_turnaround_gap :: "int option"
  cm_arrived_from :: "string option"

text \<open>A row of the final SELECT, that is of the data frame \<open>cascade_df\<close>.\<close>

record cascade_row =
  outbound_dest :: "string option"
  affected_flights :: int
  avg_outbound_delay :: "real option"
  avg_inbound_delay :: "real option"

record CascadeResult =
  origin_airport :: string
  trigger_delay_minutes :: real
  directly_affected_flights :: int
  cascade_affected_flights :: int
  total_affected_passengers :: int
  estimated_passenger_cost :: real
  estimated_airline_cost :: real
  total_economic_impact :: real
  affected_destinations :: "string option list"

subsection \<open>SQL and Python primitives\<close>

text \<open>\<open>a = b\<close>, \<open>a > b\<close>, \<open>a >= b\<close> and \<open>x BETWEEN lo AND hi\<close> are TRUE.\<close>

definition sql_eq :: "'a option \<Rightarrow> 'a option \<Rightarrow> bool" where
  "sql_eq a b = (case a of None \<Rightarrow> False
                 | Some x \<Rightarrow> (case b of None \<Rightarrow> False | Some y \<Rightarrow> x = y))"

definition sql_gt :: "('a::linorder) option \<Rightarrow> 'a option \<Rightarrow> bool" where
  "sql_gt a b = (case a of None \<Rightarrow> False
                 | Some x \<Rightarrow> (case b of None \<Rightarrow> False | Some y \<Rightarrow> y < x))"

definition sql_ge :: "('a::linorder) option \<Rightarrow> 'a option \<Rightarrow> bool" where
  "sql_ge a b = (case a of None \<Rightarrow> False
                 | Some x \<Rightarrow> (case b of None \<Rightarrow> False | Some y \<Rightarrow> y \<le> x))"

definition sql_between :: "('a::linorder) option \<Rightarrow> 'a \<Rightarrow> 'a \<Rightarrow> bool" where
  "sql_between x lo hi = (case x of None \<Rightarrow> False | Some v \<Rightarrow> lo \<le> v \<and> v \<le> hi)"

text \<open>\<open>a - b\<close> on nullable integers, and the implicit cast of an integer to DOUBLE.\<close>

definition sql_minus :: "int option \<Rightarrow> int option \<Rightarrow> int option" where
  "sql_minus a b = (case a of None \<Rightarrow> None
                    | Some x \<Rightarrow> (case b of None \<Rightarrow> None | Some y \<Rightarrow> Some (x - y)))"

definition sql_double :: "int option \<Rightarrow> real option" where
  "sql_double a = map_option of_int a"

text \<open>
  DuckDB's \<open>%\<close> on integers truncates like C: the remainder has the sign of the dividend.
\<close>

definition sql_mod :: "int \<Rightarrow> int \<Rightarrow> int" where
  "sql_mod a b = sgn a * (\<bar>a\<bar> mod \<bar>b\<bar>)"

text \<open>
  \<open>avg\<close> skips NULLs and is NULL when nothing is left; \<open>round(x, 1)\<close> on a DOUBLE rounds
  halves away from zero and keeps NULL.
\<close>

definition sql_avg :: "real option list \<Rightarrow> real option" where
  "sql_avg vs = (let ws = map the (filter (\<lambda>v. v \<noteq> None) vs)
                 in if ws = [] then None else Some (sum_list ws / of_nat (length ws)))"

definition sql_round1 :: "real option \<Rightarrow> real option" where
  "sql_round1 x =
     map_option (\<lambda>v. of_int (if 0 \<le> v then \<lfloor>v * 10 + 1 / 2\<rfloor>
                             else - \<lfloor>- v * 10 + 1 / 2\<rfloor>) / 10) x"

text \<open>Python's \<open>int(x)\<close> on a float truncates towards zero.\<close>

definition py_int :: "real \<Rightarrow> int" where
  "py_int x = (if 0 \<le> x then \<lfloor>x\<rfloor> else \<lceil>x\<rceil>)"

text \<open>
  Python's \<open>round(x, ndigits)\<close> on a float rounds to the nearest multiple of
  \<open>10 ^ - ndigits\<close>, a tie going to the even neighbour. The model rounds the exact value
  of the argument. A binary float that stands for a decimal tie lies slightly to one side
  of it, and a sum of two rounded floats is rounded again; so no statement below depends
  on which way a tie goes or on rounded amounts adding up exactly.
\<close>

definition round_half_even :: "real \<Rightarrow> int" where
  "round_half_even x =
     (let f = \<lfloor>x\<rfloor>; r = x - of_int f
      in if r < 1 / 2 then f else if 1 / 2 < r then f + 1 else if even f then f else f + 1)"

definition py_round :: "real \<Rightarrow> nat \<Rightarrow> real" where
  "py_round x ndigits = of_int (round_half_even (x * 10 ^ ndigits)) / 10 ^ ndigits"

subsection \<open>\<open>hhmm_to_minutes\<close>\<close>

text \<open>
  The Python function builds the SQL expression
  \<open>(CAST(FLOOR(c / 100) AS INTEGER) * 60 + CAST(c % 100 AS INTEGER))\<close>; the model is
  the value of that expression on the column value \<open>c\<close>. NULL propagates.
\<close>

definition hhmm_to_minutes :: "int option \<Rightarrow> int option" where
  "hhmm_to_minutes hhmm_col =
     map_option (\<lambda>c. (c div 100) * 60 + sql_mod c 100) hhmm_col"

subsection \<open>Step 1: directly affected arrivals\<close>

definition direct_count :: "flight list \<Rightarrow> string \<Rightarrow> string \<Rightarrow> int" where
  "direct_count raw_bts_flights airport date =
     int (length (filter (\<lambda>r. sql_eq (dest r) (Some airport)
                              \<and> sql_eq (flightdate r) (Some date)
                              \<and> arrdelayminutes r \<noteq> None
                              \<and> sql_gt (arrdelayminutes r) (Some 0)) raw_bts_flights))"

subsection \<open>Step 2: the cascade query\<close>

definition delayed_arrivals :: "flight list \<Rightarrow> string \<Rightarrow> string \<Rightarrow> delayed_arrival list" where
  "delayed_arrivals raw_bts_flights airport date =
     map (\<lambda>r. \<lparr>da_airline = iata_code_reporting_airline r,
               da_arr_minutes = hhmm_to_minutes (crsarrtime r),
               da_arr_delay = arrdelayminutes r,
               da_arrived_from = origin r\<rparr>)
       (filter (\<lambda>r. sql_eq (dest r) (Some airport)
                    \<and> sql_eq (flightdate r) (Some date)
                    \<and> arrdelayminutes r \<noteq> None
                    \<and> sql_ge (arrdelayminutes r) (Some 15)) raw_bts_flights)"

definition outbound_flights :: "flight list \<Rightarrow> string \<Rightarrow> string \<Rightarrow> outbound_flight list" where
  "outbound_flights raw_bts_flights airport date =
     map (\<lambda>r. \<lparr>ob_airline = iata_code_reporting_airline r,
               ob_flight_num = flight_number_reporting_airline r,
               ob_outbound_dest = dest r,
               ob_dep_minutes = hhmm_to_minutes (crsdeptime r),
               ob_depdelayminutes = depdelayminutes r\<rparr>)
       (filter (\<lambda>r. sql_eq (origin r) (Some airport)
                    \<and> sql_eq (flightdate r) (Some date)
                    \<and> sql_eq (cancelled r) (Some 0)
                    \<and> crsdeptime r \<noteq> None) raw_bts_flights)"

text \<open>
  The join condition and the WHERE clause of \<open>cascade_matches\<close>; \<open>upper\<close> is the number
  the Python f-string puts after \<open>BETWEEN 20 AND\<close>.
\<close>

definition match_accepted :: "int \<Rightarrow> outbound_flight \<Rightarrow> delayed_arrival \<Rightarrow> bool" where
  "match_accepted upper o_row a_row =
     (sql_eq (ob_airline o_row) (da_airline a_row)
      \<and> sql_gt (ob_dep_minutes o_row) (da_arr_minutes a_row)
      \<and> sql_between (sql_minus (ob_dep_minutes o_row) (da_arr_minutes a_row)) 20 upper
      \<and> sql_gt (da_arr_delay a_row)
               (sql_double (sql_minus (ob_dep_minutes o_row) (da_arr_minutes a_row))))"

text \<open>The joined pairs that pass, outbound row first as in the FROM clause.\<close>

definition joined_pairs ::
  "outbound_flight list \<Rightarrow> delayed_arrival list \<Rightarrow> int \<Rightarrow> (outbound_flight \<times> delayed_arrival) list" where
  "joined_pairs obs das upper =
     filter (\<lambda>(o_row, a_row). match_accepted upper o_row a_row) (List.product obs das)"

definition select_match :: "outbound_flight \<times> delayed_arrival \<Rightarrow> cascade_match" where
  "select_match p =
     (case p of (o_row, a_row) \<Rightarrow>
        \<lparr>cm_outbound_dest = ob_outbound_dest o_row,
         cm_flight_num = ob_flight_num o_row,
         cm_depdelayminutes = ob_depdelayminutes o_row,
         cm_inbound_delay = da_arr_delay a_row,
         cm_turnaround_gap = sql_minus (ob_dep_minutes o_row) (da_arr_minutes a_row),
         cm_arrived_from = da_arrived_from a_row\<rparr>)"

definition upper_gap :: "real \<Rightarrow> int \<Rightarrow> int" where
  "upper_gap delay_minutes min_turnaround_minutes =
     min_turnaround_minutes + py_int delay_minutes"

definition matched_pairs ::
  "flight list \<Rightarrow> string \<Rightarrow> string \<Rightarrow> real \<Rightarrow> int \<Rightarrow> (outbound_flight \<times> delayed_arrival) list" where
  "matched_pairs raw_bts_flights airport date delay_minutes min_turnaround_minutes =
     joined_pairs (outbound_flights raw_bts_flights airport date)
                  (delayed_arrivals raw_bts_flights airport date)
                  (upper_gap delay_minutes min_turnaround_minutes)"

definition cascade_matches ::
  "flight list \<Rightarrow> string \<Rightarrow> string \<Rightarrow> real \<Rightarrow> int \<Rightarrow> cascade_match list" where
  "cascade_matches raw_bts_flights airport date delay_minutes min_turnaround_minutes =
     map select_match
       (matched_pairs raw_bts_flights airport date delay_minutes min_turnaround_minutes)"

text \<open>
  \<open>GROUP BY outbound_dest\<close> with the three aggregates: one row for each distinct
  destination (NULL is a group of its own).
\<close>

definition group_by_dest :: "cascade_match list \<Rightarrow> cascade_row list" where
  "group_by_dest ms =
     map (\<lambda>k. let g = filter (\<lambda>m. cm_outbound_dest m = k) ms
              in \<lparr>outbound_dest = k,
                  affected_flights = int (length g),
                  avg_outbound_delay = sql_round1 (sql_avg (map cm_depdelayminutes g)),
                  avg_inbound_delay = sql_round1 (sql_avg (map cm_inbound_delay g))\<rparr>)
       (remdups (map cm_outbound_dest ms))"

text \<open>
  \<open>ORDER BY affected_flights DESC\<close>. SQL leaves the order of rows with equal counts
  open; the model keeps them in the order of the groups (a stable sort).
\<close>

definition order_by_affected_desc :: "cascade_row list \<Rightarrow> cascade_row list" where
  "order_by_affected_desc rows = sort_key (\<lambda>r. - affected_flights r) rows"

definition cascade_query ::
  "flight list \<Rightarrow> string \<Rightarrow> string \<Rightarrow> real \<Rightarrow> int \<Rightarrow> cascade_row list" where
  "cascade_query raw_bts_flights airport date delay_minutes min_turnaround_minutes =
     order_by_affected_desc
       (group_by_dest
          (cascade_matches raw_bts_flights airport date delay_minutes min_turnaround_minutes))"

subsection \<open>\<open>calculate_cascade_impact\<close>\<close>

text \<open>
  The connection \<open>con\<close> is modelled by the snapshot of \<open>raw_bts_flights\<close> it reads.
\<close>

definition calculate_cascade_impact ::
  "flight list \<Rightarrow> string \<Rightarrow> string \<Rightarrow> real \<Rightarrow> int \<Rightarrow> CascadeResult" where
  "calculate_cascade_impact con airport date delay_minutes min_turnaround_minutes =
     (let direct = direct_count con airport date;
          cascade_df = cascade_query con airport date delay_minutes min_turnaround_minutes;
          n_cascade = (if cascade_df \<noteq> [] then sum_list (map affected_flights cascade_df) else 0);
          affected_dests = (if cascade_df \<noteq> [] then map outbound_dest cascade_df else []);
          total_flights = direct + n_cascade;
          total_pax = py_int (of_int (total_flights * AVG_SEATS_DOMESTIC) * AVG_LOAD_FACTOR);
          avg_delay = (if total_flights > 0 then delay_minutes else 0);
          pax_cost = of_int total_pax * avg_delay * COST_PER_MINUTE_PASSENGER;
          airline_cost = of_int total_flights * avg_delay * COST_PER_MINUTE_AIRLINE_OPS;
          total_cost = pax_cost + airline_cost
      in \<lparr>origin_airport = airport,
          trigger_delay_minutes = delay_minutes,
          directly_affected_flights = direct,
          cascade_affected_flights = n_cascade,
          total_affected_passengers = total_pax,
          estimated_passenger_cost = py_round pax_cost 2,
          estimated_airline_cost = py_round airline_cost 2,
          total_economic_impact = py_round total_cost 2,
          affected_destinations = take 20 affected_dests\<rparr>)"

subsection \<open>Quantities the properties speak about\<close>

text \<open>
  The number of accepted matches that go to destination \<open>k\<close>: the \<open>count(*)\<close> of the
  group \<open>k\<close> of the cascade query.
\<close>

definition dest_match_count ::
  "flight list \<Rightarrow> string \<Rightarrow> string \<Rightarrow> real \<Rightarrow> int \<Rightarrow> string option \<Rightarrow> nat" where
  "dest_match_count con airport date delay_minutes min_turnaround_minutes k =
     length (filter (\<lambda>m. cm_outbound_dest m = k)
               (cascade_matches con airport date delay_minutes min_turnaround_minutes))"

text \<open>The rows of the snapshot that belong to an (airport, date): arrivals and departures.\<close>

definition rows_of :: "flight list \<Rightarrow> string \<Rightarrow> string \<Rightarrow> flight list" where
  "rows_of con airport date =
     filter (\<lambda>r. sql_eq (flightdate r) (Some date)
                  \<and> (sql_eq (dest r) (Some airport) \<or> sql_eq (origin r) (Some airport))) con"

text \<open>
  The candidate set of the Schedule Indexer as the specification words it: inbound
  arrivals with a non-null, positive arrival delay. The source's \<open>delayed_arrivals\<close>
  asks for a delay of at least 15 instead; the two are compared below.
\<close>

definition positive_delay_arrivals :: "flight list \<Rightarrow> string \<Rightarrow> string \<Rightarrow> delayed_arrival list" where
  "positive_delay_arrivals raw_bts_flights airport date =
     map (\<lambda>r. \<lparr>da_airline = iata_code_reporting_airline r,
               da_arr_minutes = hhmm_to_minutes (crsarrtime r),
               da_arr_delay = arrdelayminutes r,
               da_arrived_from = origin r\<rparr>)
       (filter (\<lambda>r. sql_eq (dest r) (Some airport)
                    \<and> sql_eq (flightdate r) (Some date)
                    \<and> arrdelayminutes r \<noteq> None
                    \<and> sql_gt (arrdelayminutes r) (Some 0)) raw_bts_flights)"

definition matched_pairs_any_delay ::
  "flight list \<Rightarrow> string \<Rightarrow> string \<Rightarrow> real \<Rightarrow> int \<Rightarrow> (outbound_flight \<times> delayed_arrival) list" where
  "matched_pairs_any_delay raw_bts_flights airport date delay_minutes min_turnaround_minutes =
     joined_pairs (outbound_flights raw_bts_flights airport date)
                  (positive_delay_arrivals raw_bts_flights airport date)
                  (upper_gap delay_minutes min_turnaround_minutes)"

definition cascade_query_any_delay ::
  "flight list \<Rightarrow> string \<Rightarrow> string \<Rightarrow> real \<Rightarrow> int \<Rightarrow> cascade_row list" where
  "cascade_query_any_delay raw_bts_flights airport date delay_minutes min_turnaround_minutes =
     order_by_affected_desc
       (group_by_dest
          (map select_match
             (matched_pairs_any_delay raw_bts_flights airport date delay_minutes
                min_turnaround_minutes)))"

subsection \<open>Example snapshots\<close>

text \<open>
  A flight into ORD on 2025-10-15 and a flight out of ORD on the same day; the snapshots
  below are built from them.
\<close>

definition inbound_row :: "string \<Rightarrow> string \<Rightarrow> int \<Rightarrow> real option \<Rightarrow> flight" where
  "inbound_row al frm hhmm dly =
     \<lparr>flightdate = Some ''2025-10-15'', iata_code_reporting_airline = Some al,
      flight_number_reporting_airline = Some 101, origin = Some frm, dest = Some ''ORD'',
      crsdeptime = Some 900, depdelayminutes = Some 0, crsarrtime = Some hhmm,
      arrdelayminutes = dly, cancelled = Some 0\<rparr>"

definition outbound_row :: "string \<Rightarrow> string \<Rightarrow> int \<Rightarrow> flight" where
  "outbound_row al to hhmm =
     \<lparr>flightdate = Some ''2025-10-15'', iata_code_reporting_airline = Some al,
      flight_number_reporting_airline = Some 202, origin = Some ''ORD'', dest = Some to,
      crsdeptime = Some hhmm, depdelayminutes = Some 5, crsarrtime = Some 2300,
      arrdelayminutes = None, cancelled = Some 0\<rparr>"

text \<open>
  One arrival at 14:00, 150 minutes late, and four departures of the same airline 30,
  45, 50 and 120 minutes after it.
\<close>

definition hub_snapshot :: "flight list" where
  "hub_snapshot =
     [inbound_row ''AA'' ''LAX'' 1400 (Some 150),
      outbound_row ''AA'' ''JFK'' 1430,
      outbound_row ''AA'' ''BOS'' 1445,
      outbound_row ''AA'' ''JFK'' 1450,
      outbound_row ''AA'' ''MIA'' 1600]"

text \<open>Three late arrivals and no departure.\<close>

definition three_arrivals :: "flight list" where
  "three_arrivals =
     [inbound_row ''AA'' ''LAX'' 1400 (Some 30),
      inbound_row ''UA'' ''DEN'' 1500 (Some 40),
      inbound_row ''DL'' ''ATL'' 1600 (Some 50)]"

text \<open>One late arrival and no departure.\<close>

definition one_arrival :: "flight list" where
  "one_arrival = [inbound_row ''AA'' ''LAX'' 1400 (Some 30)]"

text \<open>One late arrival and one matching departure to each of two destinations.\<close>

definition tie_snapshot :: "flight list" where
  "tie_snapshot =
     [inbound_row ''AA'' ''LAX'' 1400 (Some 60),
      outbound_row ''AA'' ''JFK'' 1430,
      outbound_row ''AA'' ''BOS'' 1445]"

text \<open>An arrival on time, an arrival with no recorded delay, and a departure.\<close>

definition on_time_snapshot :: "flight list" where
  "on_time_snapshot =
     [inbound_row ''AA'' ''LAX'' 1400 (Some 0),
      inbound_row ''AA'' ''SFO'' 1410 None,
      outbound_row ''AA'' ''JFK'' 1430]"

text \<open>
  Two late arrivals, one of them only 10 minutes late, and two departures.
\<close>

definition small_delay_snapshot :: "flight list" where
  "small_delay_snapshot =
     [inbound_row ''AA'' ''LAX'' 1400 (Some 150),
      inbound_row ''AA'' ''SFO'' 1405 (Some 10),
      outbound_row ''AA'' ''JFK'' 1430,
      outbound_row ''AA'' ''BOS'' 1445]"

section \<open>Auxiliary facts\<close>

subsection \<open>Truncation and rounding\<close>

lemma py_int_nonneg: "0 \<le> x \<Longrightarrow> py_int x = \<lfloor>x\<rfloor>"
  by (simp add: py_int_def)

lemma py_int_mono: "x \<le> y \<Longrightarrow> py_int x \<le> py_int y"
proof -
  assume xy: "x \<le> y"
  show ?thesis
  proof (cases "0 \<le> x")
    case True
    with xy show ?thesis by (simp add: py_int_def floor_mono)
  next
    case False
    show ?thesis
    proof (cases "0 \<le> y")
      case True
      from False have "\<lceil>x\<rceil> \<le> 0" by (simp add: ceiling_le_iff)
      moreover from True have "0 \<le> \<lfloor>y\<rfloor>" by simp
      ultimately have "\<lceil>x\<rceil> \<le> \<lfloor>y\<rfloor>" by linarith
      with False True show ?thesis by (simp add: py_int_def)
    next
      case ny: False
      with False xy show ?thesis by (simp add: py_int_def ceiling_mono)
    qed
  qed
qed

lemma py_int_le: "0 \<le> x \<Longrightarrow> of_int (py_int x) \<le> x"
  by (simp add: py_int_def)

lemma py_int_ge0: "0 \<le> x \<Longrightarrow> 0 \<le> py_int x"
  by (simp add: py_int_def)

lemma round_half_even_bounds:
  "\<lfloor>x\<rfloor> \<le> round_half_even x \<and> round_half_even x \<le> \<lfloor>x\<rfloor> + 1"
  by (simp add: round_half_even_def Let_def)

lemma round_half_even_mono:
  assumes "x \<le> y"
  shows "round_half_even x \<le> round_half_even y"
proof (cases "\<lfloor>x\<rfloor> = \<lfloor>y\<rfloor>")
  case True
  then have "x - of_int \<lfloor>x\<rfloor> \<le> y - of_int \<lfloor>y\<rfloor>"
    using assms by simp
  with True show ?thesis
    by (auto simp add: round_half_even_def Let_def)
next
  case False
  with assms have "\<lfloor>x\<rfloor> < \<lfloor>y\<rfloor>"
    using floor_mono [of x y] by linarith
  then have "\<lfloor>x\<rfloor> + 1 \<le> \<lfloor>y\<rfloor>" by simp
  then show ?thesis
    using round_half_even_bounds [of x] round_half_even_bounds [of y] by linarith
qed

lemma py_round_mono: "x \<le> y \<Longrightarrow> py_round x n \<le> py_round y n"
proof -
  assume "x \<le> y"
  then have "x * 10 ^ n \<le> y * 10 ^ n" by simp
  then have "round_half_even (x * 10 ^ n) \<le> round_half_even (y * 10 ^ n)"
    by (rule round_half_even_mono)
  then show ?thesis
    by (simp add: py_round_def divide_right_mono)
qed

lemma py_round_zero: "py_round 0 n = 0"
  by (simp add: py_round_def round_half_even_def)

subsection \<open>The cascade count is the number of accepted matches\<close>

lemma int_sum_list_map: "(\<Sum>k\<leftarrow>ks. int (f k)) = int (\<Sum>k\<leftarrow>ks. f k)"
  by (induction ks) auto

lemma sum_affected_group_by:
  "sum_list (map affected_flights (group_by_dest ms)) = int (length ms)"
proof -
  let ?ks = "map cm_outbound_dest ms"
  have cnt: "\<And>k. length (filter (\<lambda>m. cm_outbound_dest m = k) ms) = count_list ?ks k"
    by (induction ms) auto
  have "sum_list (map affected_flights (group_by_dest ms))
        = (\<Sum>k\<leftarrow>remdups ?ks. int (count_list ?ks k))"
    by (simp add: group_by_dest_def Let_def comp_def cnt)
  also have "\<dots> = int (\<Sum>k\<leftarrow>remdups ?ks. count_list ?ks k)"
    by (rule int_sum_list_map)
  also have "(\<Sum>k\<leftarrow>remdups ?ks. count_list ?ks k) = sum (count_list ?ks) (set ?ks)"
    by (simp add: sum_list_distinct_conv_sum_set)
  also have "\<dots> = length ?ks"
    by (rule sum_count_set) auto
  finally show ?thesis by simp
qed

lemma sum_affected_order:
  "sum_list (map affected_flights (order_by_affected_desc rows))
     = sum_list (map affected_flights rows)"
proof -
  have "mset (map affected_flights (order_by_affected_desc rows))
          = mset (map affected_flights rows)"
    by (simp add: order_by_affected_desc_def)
  then show ?thesis
    by (metis sum_mset_sum_list)
qed

lemma sum_affected_query:
  "sum_list (map affected_flights (cascade_query con airport date d mt))
     = int (length (matched_pairs con airport date d mt))"
  by (simp add: cascade_query_def sum_affected_order sum_affected_group_by cascade_matches_def)

lemma cascade_affected_eq:
  "cascade_affected_flights (calculate_cascade_impact con airport date d mt)
     = int (length (matched_pairs con airport date d mt))"
proof (cases "cascade_query con airport date d mt = []")
  case True
  then have "int (length (matched_pairs con airport date d mt)) = 0"
    using sum_affected_query [of con airport date d mt] by simp
  with True show ?thesis
    by (simp add: calculate_cascade_impact_def Let_def)
next
  case False
  then show ?thesis
    by (simp add: calculate_cascade_impact_def Let_def sum_affected_query)
qed

lemma directly_affected_eq:
  "directly_affected_flights (calculate_cascade_impact con airport date d mt)
     = direct_count con airport date"
  by (simp add: calculate_cascade_impact_def Let_def)

section \<open>Invariants of accepted matches\<close>

lemma match_accepted_D:
  assumes "match_accepted upper o_row a_row"
  shows "\<exists>dep arr dly. ob_dep_minutes o_row = Some dep \<and> da_arr_minutes a_row = Some arr
           \<and> da_arr_delay a_row = Some dly \<and> ob_airline o_row = da_airline a_row
           \<and> arr < dep \<and> 20 \<le> dep - arr \<and> dep - arr \<le> upper
           \<and> real_of_int (dep - arr) < dly"
  using assms
  by (auto simp add: match_accepted_def sql_eq_def sql_gt_def sql_between_def sql_minus_def
        sql_double_def split: option.splits)

lemma matched_pairs_accepted:
  "(o_row, a_row) \<in> set (matched_pairs con airport date d mt)
     \<Longrightarrow> match_accepted (upper_gap d mt) o_row a_row"
  by (simp add: matched_pairs_def joined_pairs_def)

text \<open>
  Claim C1. Every accepted match of \<open>calculate_cascade_impact\<close>, that is every pair of
  an outbound and a delayed inbound row that the CTE \<open>cascade_matches\<close> keeps, has both
  scheduled times, the departure strictly after the arrival, a gap (departure minus
  arrival, the match's \<open>turnaround_gap\<close>) of at least 20 and at most
  \<open>min_turnaround + trigger_delay\<close> minutes, and an inbound delay strictly above the
  gap. The trigger delay is a non-negative number, as the interface asks; the query's
  own bound is \<open>min_turnaround + int(trigger_delay)\<close>.
\<close>

theorem accepted_match_invariants:
  assumes "(o_row, a_row) \<in> set (matched_pairs con airport date delay_minutes min_turnaround_minutes)"
    and "0 \<le> delay_minutes"
  shows "\<exists>dep arr dly.
           ob_dep_minutes o_row = Some dep \<and> da_arr_minutes a_row = Some arr
           \<and> cm_turnaround_gap (select_match (o_row, a_row)) = Some (dep - arr)
           \<and> cm_inbound_delay (select_match (o_row, a_row)) = Some dly
           \<and> arr < dep
           \<and> 20 \<le> dep - arr
           \<and> real_of_int (dep - arr) \<le> real_of_int min_turnaround_minutes + delay_minutes
           \<and> real_of_int (dep - arr) < dly"
proof -
  from assms(1) have "match_accepted (upper_gap delay_minutes min_turnaround_minutes) o_row a_row"
    by (rule matched_pairs_accepted)
  then obtain dep arr dly where f:
    "ob_dep_minutes o_row = Some dep" "da_arr_minutes a_row = Some arr"
    "da_arr_delay a_row = Some dly" "arr < dep" "20 \<le> dep - arr"
    "dep - arr \<le> upper_gap delay_minutes min_turnaround_minutes"
    "real_of_int (dep - arr) < dly"
    using match_accepted_D by blast
  from f(6) have "real_of_int (dep - arr)
      \<le> real_of_int min_turnaround_minutes + real_of_int (py_int delay_minutes)"
    unfolding upper_gap_def by (metis of_int_add of_int_le_iff)
  also have "\<dots> \<le> real_of_int min_turnaround_minutes + delay_minutes"
    using py_int_le [OF assms(2)] by simp
  finally have ub: "real_of_int (dep - arr) \<le> real_of_int min_turnaround_minutes + delay_minutes" .
  from f ub show ?thesis
    by (simp add: select_match_def sql_minus_def)
qed

text \<open>
  In \<open>hub_snapshot\<close> the 16:00 departure to MIA is matched with the 14:00 arrival (150
  minutes late) for a trigger delay of 90 and a minimum turnaround of 45.
\<close>

theorem accepted_match_invariants_witness:
  "(\<lparr>ob_airline = Some ''AA'', ob_flight_num = Some 202, ob_outbound_dest = Some ''MIA'',
      ob_dep_minutes = Some 960, ob_depdelayminutes = Some 5\<rparr>,
    \<lparr>da_airline = Some ''AA'', da_arr_minutes = Some 840, da_arr_delay = Some 150,
      da_arrived_from = Some ''LAX''\<rparr>)
     \<in> set (matched_pairs hub_snapshot ''ORD'' ''2025-10-15'' 90 45)
   \<and> (0::real) \<le> 90
   \<and> (840::int) < 960 \<and> (20::int) \<le> 960 - 840
   \<and> real_of_int (960 - 840) \<le> real_of_int 45 + 90
   \<and> real_of_int (960 - 840) < 150"
proof -
  let ?o = "\<lparr>ob_airline = Some ''AA'', ob_flight_num = Some 202, ob_outbound_dest = Some ''MIA'',
      ob_dep_minutes = Some 960, ob_depdelayminutes = Some 5\<rparr>"
  let ?a = "\<lparr>da_airline = Some ''AA'', da_arr_minutes = Some 840, da_arr_delay = Some (150::real),
      da_arrived_from = Some ''LAX''\<rparr>"
  have mem: "(?o, ?a) \<in> set (matched_pairs hub_snapshot ''ORD'' ''2025-10-15'' 90 45)"
    by code_simp
  have pos: "(0::real) \<le> 90" by simp
  from accepted_match_invariants [OF mem pos] mem show ?thesis
    by simp
qed

section \<open>The cost model\<close>

text \<open>
  The result record with the data frame folded away: the cascade count is the number of
  accepted matches, whether or not the data frame is empty.
\<close>

lemma direct_count_nonneg: "0 \<le> direct_count con airport date"
  by (simp add: direct_count_def)

lemma total_flights_nonneg:
  "0 \<le> direct_count con airport date + int (length (matched_pairs con airport date d mt))"
  using direct_count_nonneg [of con airport date] by simp

lemma result_normal_form:
  "calculate_cascade_impact con airport date d mt =
     (let total_flights = direct_count con airport date
                            + int (length (matched_pairs con airport date d mt));
          total_pax = py_int (of_int (total_flights * AVG_SEATS_DOMESTIC) * AVG_LOAD_FACTOR);
          avg_delay = (if total_flights > 0 then d else 0);
          pax_cost = of_int total_pax * avg_delay * COST_PER_MINUTE_PASSENGER;
          airline_cost = of_int total_flights * avg_delay * COST_PER_MINUTE_AIRLINE_OPS
      in \<lparr>origin_airport = airport,
          trigger_delay_minutes = d,
          directly_affected_flights = direct_count con airport date,
          cascade_affected_flights = int (length (matched_pairs con airport date d mt)),
          total_affected_passengers = total_pax,
          estimated_passenger_cost = py_round pax_cost 2,
          estimated_airline_cost = py_round airline_cost 2,
          total_economic_impact = py_round (pax_cost + airline_cost) 2,
          affected_destinations = take 20 (map outbound_dest (cascade_query con airport date d mt))\<rparr>)"
proof (cases "cascade_query con airport date d mt = []")
  case True
  then have "int (length (matched_pairs con airport date d mt)) = 0"
    using sum_affected_query [of con airport date d mt] by simp
  with True show ?thesis
    by (simp add: calculate_cascade_impact_def Let_def)
next
  case False
  then show ?thesis
    by (simp add: calculate_cascade_impact_def Let_def sum_affected_query)
qed

lemma total_pax_formula:
  "0 \<le> tf \<Longrightarrow> py_int (of_int (tf * AVG_SEATS_DOMESTIC) * AVG_LOAD_FACTOR)
      = \<lfloor>of_int tf * of_int AVG_SEATS_DOMESTIC * AVG_LOAD_FACTOR\<rfloor>"
  by (simp add: py_int_nonneg AVG_SEATS_DOMESTIC_def AVG_LOAD_FACTOR_def)

text \<open>
  Claim C2, as the code has it. The passenger count is
  \<open>int(total_flights * AVG_SEATS_DOMESTIC * AVG_LOAD_FACTOR)\<close>: the product is truncated
  (for a non-negative product, its floor), not rounded to the nearest integer, where
  \<open>total_flights\<close> is the sum of the two reported flight counts; it is never negative.
\<close>

theorem total_passengers_truncated:
  "total_affected_passengers (calculate_cascade_impact con airport date delay_minutes min_turnaround_minutes)
     = \<lfloor>of_int (directly_affected_flights (calculate_cascade_impact con airport date delay_minutes min_turnaround_minutes)
               + cascade_affected_flights (calculate_cascade_impact con airport date delay_minutes min_turnaround_minutes))
          * of_int AVG_SEATS_DOMESTIC * AVG_LOAD_FACTOR\<rfloor>
   \<and> 0 \<le> total_affected_passengers (calculate_cascade_impact con airport date delay_minutes min_turnaround_minutes)"
proof -
  let ?tf = "direct_count con airport date
               + int (length (matched_pairs con airport date delay_minutes min_turnaround_minutes))"
  have tf: "0 \<le> ?tf" using direct_count_nonneg [of con airport date] by simp
  have "0 \<le> of_int ?tf * of_int AVG_SEATS_DOMESTIC * AVG_LOAD_FACTOR"
    using tf by (simp add: AVG_SEATS_DOMESTIC_def AVG_LOAD_FACTOR_def)
  then have "0 \<le> \<lfloor>of_int ?tf * of_int AVG_SEATS_DOMESTIC * AVG_LOAD_FACTOR\<rfloor>" by simp
  then show ?thesis
    using total_pax_formula [OF tf] by (simp add: result_normal_form Let_def)
qed

text \<open>
  The claim as stated (the count is the rounded product) fails for three affected
  flights: \<open>3 * 160 * 0.87 = 417.6\<close>, which \<open>int\<close> truncates to 417 and \<open>round\<close> would
  take to 418.
\<close>

theorem total_passengers_round_counterexample:
  "total_affected_passengers (calculate_cascade_impact three_arrivals ''ORD'' ''2025-10-15'' 90 45) = 417
   \<and> directly_affected_flights (calculate_cascade_impact three_arrivals ''ORD'' ''2025-10-15'' 90 45) = 3
   \<and> cascade_affected_flights (calculate_cascade_impact three_arrivals ''ORD'' ''2025-10-15'' 90 45) = 0
   \<and> round_half_even (of_int (3 + 0) * of_int AVG_SEATS_DOMESTIC * AVG_LOAD_FACTOR) = 418
   \<and> total_affected_passengers (calculate_cascade_impact three_arrivals ''ORD'' ''2025-10-15'' 90 45)
       \<noteq> round_half_even
            (of_int (directly_affected_flights (calculate_cascade_impact three_arrivals ''ORD'' ''2025-10-15'' 90 45)
                     + cascade_affected_flights (calculate_cascade_impact three_arrivals ''ORD'' ''2025-10-15'' 90 45))
             * of_int AVG_SEATS_DOMESTIC * AVG_LOAD_FACTOR)"
  by code_simp

text \<open>
  Claim C3, as the code has it. The three reported amounts are \<open>round(pax_cost, 2)\<close>,
  \<open>round(airline_cost, 2)\<close> and \<open>round(pax_cost + airline_cost, 2)\<close>: the reported total
  is the unrounded sum of the two unrounded components, rounded once, and not the sum of
  the two reported components. Both components are computed from the same effective
  delay \<open>avg_delay\<close> (the trigger delay, or 0 when no flight is affected).
\<close>

theorem total_cost_rounded_sum:
  "estimated_passenger_cost (calculate_cascade_impact con airport date delay_minutes min_turnaround_minutes)
     = py_round (of_int (total_affected_passengers (calculate_cascade_impact con airport date delay_minutes min_turnaround_minutes))
                 * (if 0 < directly_affected_flights (calculate_cascade_impact con airport date delay_minutes min_turnaround_minutes)
                          + cascade_affected_flights (calculate_cascade_impact con airport date delay_minutes min_turnaround_minutes)
                    then delay_minutes else 0)
                 * COST_PER_MINUTE_PASSENGER) 2
   \<and> estimated_airline_cost (calculate_cascade_impact con airport date delay_minutes min_turnaround_minutes)
     = py_round (of_int (directly_affected_flights (calculate_cascade_impact con airport date delay_minutes min_turnaround_minutes)
                         + cascade_affected_flights (calculate_cascade_impact con airport date delay_minutes min_turnaround_minutes))
                 * (if 0 < directly_affected_flights (calculate_cascade_impact con airport date delay_minutes min_turnaround_minutes)
                          + cascade_affected_flights (calculate_cascade_impact con airport date delay_minutes min_turnaround_minutes)
                    then delay_minutes else 0)
                 * COST_PER_MINUTE_AIRLINE_OPS) 2
   \<and> total_economic_impact (calculate_cascade_impact con airport date delay_minutes min_turnaround_minutes)
     = py_round (of_int (total_affected_passengers (calculate_cascade_impact con airport date delay_minutes min_turnaround_minutes))
                 * (if 0 < directly_affected_flights (calculate_cascade_impact con airport date delay_minutes min_turnaround_minutes)
                          + cascade_affected_flights (calculate_cascade_impact con airport date delay_minutes min_turnaround_minutes)
                    then delay_minutes else 0)
                 * COST_PER_MINUTE_PASSENGER
                 + of_int (directly_affected_flights (calculate_cascade_impact con airport date delay_minutes min_turnaround_minutes)
                         + cascade_affected_flights (calculate_cascade_impact con airport date delay_minutes min_turnaround_minutes))
                 * (if 0 < directly_affected_flights (calculate_cascade_impact con airport date delay_minutes min_turnaround_minutes)
                          + cascade_affected_flights (calculate_cascade_impact con airport date delay_minutes min_turnaround_minutes)
                    then delay_minutes else 0)
                 * COST_PER_MINUTE_AIRLINE_OPS) 2"
  by (simp add: result_normal_form Let_def)

text \<open>
  The claim as stated (for every invocation the reported total is the sum of the two
  reported costs) fails for one affected flight and a trigger delay of 15.1 minutes:
  the components are 1553.186 and 1034.048, reported as 1553.19 and 1034.05, and their
  unrounded sum 2587.234 is reported as 2587.23, one cent below 2587.24.
\<close>

theorem total_cost_sum_counterexample:
  "estimated_passenger_cost (calculate_cascade_impact one_arrival ''ORD'' ''2025-10-15'' (151 / 10) 45) = 155319 / 100
   \<and> estimated_airline_cost (calculate_cascade_impact one_arrival ''ORD'' ''2025-10-15'' (151 / 10) 45) = 103405 / 100
   \<and> total_economic_impact (calculate_cascade_impact one_arrival ''ORD'' ''2025-10-15'' (151 / 10) 45) = 258723 / 100
   \<and> total_economic_impact (calculate_cascade_impact one_arrival ''ORD'' ''2025-10-15'' (151 / 10) 45)
       \<noteq> estimated_passenger_cost (calculate_cascade_impact one_arrival ''ORD'' ''2025-10-15'' (151 / 10) 45)
         + estimated_airline_cost (calculate_cascade_impact one_arrival ''ORD'' ''2025-10-15'' (151 / 10) 45)"
  by code_simp

text \<open>
  Claim C7. The reported passenger cost is
  \<open>total_affected_passengers * trigger_delay * COST_PER_MINUTE_PASSENGER\<close> and the
  reported airline cost is \<open>total_flights * trigger_delay * COST_PER_MINUTE_AIRLINE_OPS\<close>,
  each rounded to two decimals: every affected flight is costed at the caller's trigger
  delay, and no measured delay of a flight enters. (When no flight is affected the source
  uses a delay of 0, and both products are 0 either way.)
\<close>

theorem costs_use_trigger_delay:
  "estimated_passenger_cost (calculate_cascade_impact con airport date delay_minutes min_turnaround_minutes)
     = py_round (of_int (total_affected_passengers (calculate_cascade_impact con airport date delay_minutes min_turnaround_minutes))
                 * delay_minutes * COST_PER_MINUTE_PASSENGER) 2
   \<and> estimated_airline_cost (calculate_cascade_impact con airport date delay_minutes min_turnaround_minutes)
     = py_round (of_int (directly_affected_flights (calculate_cascade_impact con airport date delay_minutes min_turnaround_minutes)
                         + cascade_affected_flights (calculate_cascade_impact con airport date delay_minutes min_turnaround_minutes))
                 * delay_minutes * COST_PER_MINUTE_AIRLINE_OPS) 2"
proof -
  let ?tf = "direct_count con airport date
               + int (length (matched_pairs con airport date delay_minutes min_turnaround_minutes))"
  show ?thesis
  proof (cases "0 < ?tf")
    case True
    then show ?thesis by (simp add: result_normal_form Let_def)
  next
    case False
    with total_flights_nonneg [of con airport date delay_minutes min_turnaround_minutes]
    have z: "?tf = 0" by linarith
    have "py_int (of_int (?tf * AVG_SEATS_DOMESTIC) * AVG_LOAD_FACTOR) = 0"
      unfolding z by (simp add: py_int_def)
    then show ?thesis
      using z by (simp add: result_normal_form Let_def)
  qed
qed

section \<open>Monotonicity\<close>

text \<open>A larger upper bound of the window keeps every match and may add some.\<close>

lemma match_accepted_mono:
  "u1 \<le> u2 \<Longrightarrow> match_accepted u1 o_row a_row \<Longrightarrow> match_accepted u2 o_row a_row"
  by (auto simp add: match_accepted_def sql_between_def split: option.splits)

lemma length_filter_mono:
  "(\<And>x. x \<in> set xs \<Longrightarrow> P x \<Longrightarrow> Q x) \<Longrightarrow> length (filter P xs) \<le> length (filter Q xs)"
  by (induction xs) auto

lemma joined_pairs_length_mono:
  "u1 \<le> u2 \<Longrightarrow> length (joined_pairs obs das u1) \<le> length (joined_pairs obs das u2)"
  unfolding joined_pairs_def
  by (rule length_filter_mono) (auto intro: match_accepted_mono)

lemma matched_pairs_mono_delay:
  "d1 \<le> d2 \<Longrightarrow> length (matched_pairs con airport date d1 mt)
                  \<le> length (matched_pairs con airport date d2 mt)"
  unfolding matched_pairs_def
  by (rule joined_pairs_length_mono) (simp add: upper_gap_def py_int_mono)

lemma matched_pairs_mono_turnaround:
  "m1 \<le> m2 \<Longrightarrow> length (matched_pairs con airport date d m1)
                  \<le> length (matched_pairs con airport date d m2)"
  unfolding matched_pairs_def
  by (rule joined_pairs_length_mono) (simp add: upper_gap_def)

text \<open>
  Claim C5. For a fixed snapshot, airport, date and trigger delay,
  \<open>cascade_affected_flights\<close> does not decrease when \<open>min_turnaround_minutes\<close> grows.
\<close>

theorem cascade_count_mono_turnaround:
  assumes "m1 \<le> m2"
  shows "cascade_affected_flights (calculate_cascade_impact con airport date delay_minutes m1)
           \<le> cascade_affected_flights (calculate_cascade_impact con airport date delay_minutes m2)"
  using matched_pairs_mono_turnaround [OF assms, of con airport date delay_minutes]
  by (simp add: cascade_affected_eq)

text \<open>
  On \<open>hub_snapshot\<close> with a trigger delay of 0, a minimum turnaround of 30 admits the
  30-minute gap only, one of 45 admits the 45-minute gap as well.
\<close>

theorem cascade_count_mono_turnaround_witness:
  "(30::int) \<le> 45
   \<and> cascade_affected_flights (calculate_cascade_impact hub_snapshot ''ORD'' ''2025-10-15'' 0 30) = 1
   \<and> cascade_affected_flights (calculate_cascade_impact hub_snapshot ''ORD'' ''2025-10-15'' 0 45) = 2
   \<and> cascade_affected_flights (calculate_cascade_impact hub_snapshot ''ORD'' ''2025-10-15'' 0 30)
       \<le> cascade_affected_flights (calculate_cascade_impact hub_snapshot ''ORD'' ''2025-10-15'' 0 45)"
proof -
  have h: "(30::int) \<le> 45" by simp
  have v: "cascade_affected_flights (calculate_cascade_impact hub_snapshot ''ORD'' ''2025-10-15'' 0 30) = 1"
     "cascade_affected_flights (calculate_cascade_impact hub_snapshot ''ORD'' ''2025-10-15'' 0 45) = 2"
    by code_simp+
  from cascade_count_mono_turnaround [OF h, of hub_snapshot "''ORD''" "''2025-10-15''" 0] h v
  show ?thesis by simp
qed

text \<open>
  The unrounded total of the cost model grows with the flight count and with a
  non-negative delay.
\<close>

lemma cost_mono:
  fixes tf1 tf2 :: int and d1 d2 :: real
  assumes tf: "0 \<le> tf1" "tf1 \<le> tf2" and d: "0 \<le> d1" "d1 \<le> d2"
  shows "of_int (py_int (of_int (tf1 * AVG_SEATS_DOMESTIC) * AVG_LOAD_FACTOR))
           * (if tf1 > 0 then d1 else 0) * COST_PER_MINUTE_PASSENGER
         + of_int tf1 * (if tf1 > 0 then d1 else 0) * COST_PER_MINUTE_AIRLINE_OPS
       \<le> of_int (py_int (of_int (tf2 * AVG_SEATS_DOMESTIC) * AVG_LOAD_FACTOR))
           * (if tf2 > 0 then d2 else 0) * COST_PER_MINUTE_PASSENGER
         + of_int tf2 * (if tf2 > 0 then d2 else 0) * COST_PER_MINUTE_AIRLINE_OPS"
proof -
  define p1 where "p1 = py_int (of_int (tf1 * AVG_SEATS_DOMESTIC) * AVG_LOAD_FACTOR)"
  define p2 where "p2 = py_int (of_int (tf2 * AVG_SEATS_DOMESTIC) * AVG_LOAD_FACTOR)"
  define a1 where "a1 = (if tf1 > 0 then d1 else 0)"
  define a2 where "a2 = (if tf2 > 0 then d2 else 0)"
  have "real_of_int (tf1 * AVG_SEATS_DOMESTIC) * AVG_LOAD_FACTOR
          \<le> real_of_int (tf2 * AVG_SEATS_DOMESTIC) * AVG_LOAD_FACTOR"
    using tf by (simp add: AVG_SEATS_DOMESTIC_def AVG_LOAD_FACTOR_def)
  then have p12: "p1 \<le> p2"
    unfolding p1_def p2_def by (rule py_int_mono)
  have "0 \<le> real_of_int (tf1 * AVG_SEATS_DOMESTIC) * AVG_LOAD_FACTOR"
    using tf by (simp add: AVG_SEATS_DOMESTIC_def AVG_LOAD_FACTOR_def)
  then have p1: "0 \<le> p1"
    unfolding p1_def by (rule py_int_ge0)
  have a1: "0 \<le> a1" using d by (simp add: a1_def)
  have a12: "a1 \<le> a2" using tf d by (auto simp add: a1_def a2_def)
  have "real_of_int p1 * a1 \<le> real_of_int p2 * a2"
    using p12 p1 a1 a12 by (intro mult_mono) auto
  then have x: "real_of_int p1 * a1 * COST_PER_MINUTE_PASSENGER
                 \<le> real_of_int p2 * a2 * COST_PER_MINUTE_PASSENGER"
    by (rule mult_right_mono) (simp add: COST_PER_MINUTE_PASSENGER_def)
  have "real_of_int tf1 * a1 \<le> real_of_int tf2 * a2"
    using tf a1 a12 by (intro mult_mono) auto
  then have y: "real_of_int tf1 * a1 * COST_PER_MINUTE_AIRLINE_OPS
                 \<le> real_of_int tf2 * a2 * COST_PER_MINUTE_AIRLINE_OPS"
    by (rule mult_right_mono) (simp add: COST_PER_MINUTE_AIRLINE_OPS_def)
  from x y show ?thesis
    unfolding p1_def p2_def a1_def a2_def by (rule add_mono)
qed

text \<open>
  Claim C4. For a fixed snapshot, airport, date and minimum turnaround, the reported
  total economic impact does not decrease when the trigger delay grows: for positive
  \<open>d1 \<le> d2\<close> the total for \<open>d1\<close> is at most the total for \<open>d2\<close>.
\<close>

theorem total_cost_mono_delay:
  assumes "0 < d1" and "d1 \<le> d2"
  shows "total_economic_impact (calculate_cascade_impact con airport date d1 min_turnaround_minutes)
           \<le> total_economic_impact (calculate_cascade_impact con airport date d2 min_turnaround_minutes)"
proof -
  define tf1 where "tf1 = direct_count con airport date
      + int (length (matched_pairs con airport date d1 min_turnaround_minutes))"
  define tf2 where "tf2 = direct_count con airport date
      + int (length (matched_pairs con airport date d2 min_turnaround_minutes))"
  have "0 \<le> tf1"
    unfolding tf1_def by (rule total_flights_nonneg)
  moreover have "tf1 \<le> tf2"
    unfolding tf1_def tf2_def using matched_pairs_mono_delay [OF assms(2)] by simp
  moreover have "0 \<le> d1" using assms(1) by simp
  ultimately have "of_int (py_int (of_int (tf1 * AVG_SEATS_DOMESTIC) * AVG_LOAD_FACTOR))
           * (if tf1 > 0 then d1 else 0) * COST_PER_MINUTE_PASSENGER
         + of_int tf1 * (if tf1 > 0 then d1 else 0) * COST_PER_MINUTE_AIRLINE_OPS
       \<le> of_int (py_int (of_int (tf2 * AVG_SEATS_DOMESTIC) * AVG_LOAD_FACTOR))
           * (if tf2 > 0 then d2 else 0) * COST_PER_MINUTE_PASSENGER
         + of_int tf2 * (if tf2 > 0 then d2 else 0) * COST_PER_MINUTE_AIRLINE_OPS"
    using assms(2) by (rule cost_mono)
  then have "py_round (of_int (py_int (of_int (tf1 * AVG_SEATS_DOMESTIC) * AVG_LOAD_FACTOR))
           * (if tf1 > 0 then d1 else 0) * COST_PER_MINUTE_PASSENGER
         + of_int tf1 * (if tf1 > 0 then d1 else 0) * COST_PER_MINUTE_AIRLINE_OPS) 2
       \<le> py_round (of_int (py_int (of_int (tf2 * AVG_SEATS_DOMESTIC) * AVG_LOAD_FACTOR))
           * (if tf2 > 0 then d2 else 0) * COST_PER_MINUTE_PASSENGER
         + of_int tf2 * (if tf2 > 0 then d2 else 0) * COST_PER_MINUTE_AIRLINE_OPS) 2"
    by (rule py_round_mono)
  moreover have "total_economic_impact (calculate_cascade_impact con airport date d1 min_turnaround_minutes)
     = py_round (of_int (py_int (of_int (tf1 * AVG_SEATS_DOMESTIC) * AVG_LOAD_FACTOR))
           * (if tf1 > 0 then d1 else 0) * COST_PER_MINUTE_PASSENGER
         + of_int tf1 * (if tf1 > 0 then d1 else 0) * COST_PER_MINUTE_AIRLINE_OPS) 2"
    by (simp add: result_normal_form Let_def tf1_def)
  moreover have "total_economic_impact (calculate_cascade_impact con airport date d2 min_turnaround_minutes)
     = py_round (of_int (py_int (of_int (tf2 * AVG_SEATS_DOMESTIC) * AVG_LOAD_FACTOR))
           * (if tf2 > 0 then d2 else 0) * COST_PER_MINUTE_PASSENGER
         + of_int tf2 * (if tf2 > 0 then d2 else 0) * COST_PER_MINUTE_AIRLINE_OPS) 2"
    by (simp add: result_normal_form Let_def tf2_def)
  ultimately show ?thesis by simp
qed

text \<open>
  Scenario C on \<open>hub_snapshot\<close>: raising the trigger delay from 60 to 120 adds the
  120-minute turnaround to the matches and takes the total from 41121.60 to 102892.80.
\<close>

theorem total_cost_mono_delay_witness:
  "(0::real) < 60 \<and> (60::real) \<le> 120
   \<and> total_economic_impact (calculate_cascade_impact hub_snapshot ''ORD'' ''2025-10-15'' 60 45) = 411216 / 10
   \<and> total_economic_impact (calculate_cascade_impact hub_snapshot ''ORD'' ''2025-10-15'' 120 45) = 1028928 / 10
   \<and> total_economic_impact (calculate_cascade_impact hub_snapshot ''ORD'' ''2025-10-15'' 60 45)
       \<le> total_economic_impact (calculate_cascade_impact hub_snapshot ''ORD'' ''2025-10-15'' 120 45)"
proof -
  have h1: "(0::real) < 60" and h2: "(60::real) \<le> 120" by simp_all
  have v: "total_economic_impact (calculate_cascade_impact hub_snapshot ''ORD'' ''2025-10-15'' 60 45) = 411216 / 10"
    "total_economic_impact (calculate_cascade_impact hub_snapshot ''ORD'' ''2025-10-15'' 120 45) = 1028928 / 10"
    by code_simp+
  from total_cost_mono_delay [OF h1 h2, of hub_snapshot "''ORD''" "''2025-10-15''" 45] v
  show ?thesis by simp
qed

section \<open>The destination list\<close>

text \<open>
  Each row of the grouped result carries the number of matches of its destination, and
  \<open>ORDER BY affected_flights DESC\<close> leaves these counts non-increasing.
\<close>

lemma group_row_count:
  "r \<in> set (group_by_dest ms)
     \<Longrightarrow> affected_flights r = int (length (filter (\<lambda>m. cm_outbound_dest m = outbound_dest r) ms))"
  by (auto simp add: group_by_dest_def Let_def)

lemma order_by_affected_desc_sorted:
  "sorted_wrt (\<lambda>x y. affected_flights y \<le> affected_flights x) (order_by_affected_desc rows)"
proof -
  have "sorted (map (\<lambda>r. - affected_flights r) (order_by_affected_desc rows))"
    unfolding order_by_affected_desc_def by (rule sorted_sort_key)
  then show ?thesis
    by (simp add: sorted_map)
qed

lemma set_order_by_affected_desc: "set (order_by_affected_desc rows) = set rows"
  by (simp add: order_by_affected_desc_def)

lemma cascade_query_dests_sorted:
  "sorted_wrt (\<lambda>j k. dest_match_count con airport date d mt k \<le> dest_match_count con airport date d mt j)
     (map outbound_dest (cascade_query con airport date d mt))"
proof -
  let ?ms = "cascade_matches con airport date d mt"
  let ?rows = "order_by_affected_desc (group_by_dest ?ms)"
  have "sorted_wrt (\<lambda>x y. affected_flights y \<le> affected_flights x) ?rows"
    by (rule order_by_affected_desc_sorted)
  then have "sorted_wrt (\<lambda>x y. dest_match_count con airport date d mt (outbound_dest y)
                               \<le> dest_match_count con airport date d mt (outbound_dest x)) ?rows"
  proof (rule sorted_wrt_mono_rel [rotated])
    fix x y
    assume "x \<in> set ?rows" "y \<in> set ?rows" "affected_flights y \<le> affected_flights x"
    then show "dest_match_count con airport date d mt (outbound_dest y)
                 \<le> dest_match_count con airport date d mt (outbound_dest x)"
      by (simp add: set_order_by_affected_desc group_row_count dest_match_count_def)
  qed
  then show ?thesis
    by (simp add: cascade_query_def sorted_wrt_map)
qed

text \<open>
  Claim C6, as the code has it. The destination list of the result has at most 20
  entries, and the per-destination match counts along it never increase: it is ordered
  by descending match count, destinations with equal counts standing next to each other
  in an order the query does not determine.
\<close>

theorem destinations_bounded_and_ordered:
  "length (affected_destinations (calculate_cascade_impact con airport date delay_minutes min_turnaround_minutes)) \<le> 20
   \<and> sorted_wrt (\<lambda>j k. dest_match_count con airport date delay_minutes min_turnaround_minutes k
                         \<le> dest_match_count con airport date delay_minutes min_turnaround_minutes j)
        (affected_destinations (calculate_cascade_impact con airport date delay_minutes min_turnaround_minutes))"
proof -
  have "affected_destinations (calculate_cascade_impact con airport date delay_minutes min_turnaround_minutes)
          = take 20 (map outbound_dest (cascade_query con airport date delay_minutes min_turnaround_minutes))"
    by (simp add: result_normal_form Let_def)
  then show ?thesis
    using cascade_query_dests_sorted [of con airport date delay_minutes min_turnaround_minutes]
    by (simp add: sorted_wrt_take)
qed

text \<open>
  The claim as stated asks for a strict order. With one match to JFK and one to BOS the
  list has two destinations of count 1, so the counts along it do not strictly
  decrease.
\<close>

theorem destinations_strict_order_counterexample:
  "length (affected_destinations (calculate_cascade_impact tie_snapshot ''ORD'' ''2025-10-15'' 90 45)) = 2
   \<and> Some ''JFK'' \<in> set (affected_destinations (calculate_cascade_impact tie_snapshot ''ORD'' ''2025-10-15'' 90 45))
   \<and> Some ''BOS'' \<in> set (affected_destinations (calculate_cascade_impact tie_snapshot ''ORD'' ''2025-10-15'' 90 45))
   \<and> dest_match_count tie_snapshot ''ORD'' ''2025-10-15'' 90 45 (Some ''JFK'') = 1
   \<and> dest_match_count tie_snapshot ''ORD'' ''2025-10-15'' 90 45 (Some ''BOS'') = 1
   \<and> \<not> sorted_wrt (\<lambda>j k. dest_match_count tie_snapshot ''ORD'' ''2025-10-15'' 90 45 k
                           < dest_match_count tie_snapshot ''ORD'' ''2025-10-15'' 90 45 j)
          (affected_destinations (calculate_cascade_impact tie_snapshot ''ORD'' ''2025-10-15'' 90 45))"
  by code_simp

section \<open>Empty inputs\<close>

lemma no_rows_filters:
  assumes "rows_of con airport date = []"
  shows "direct_count con airport date = 0"
    and "delayed_arrivals con airport date = []"
    and "outbound_flights con airport date = []"
proof -
  from assms have none: "\<And>r. r \<in> set con \<Longrightarrow>
      \<not> (sql_eq (flightdate r) (Some date)
          \<and> (sql_eq (dest r) (Some airport) \<or> sql_eq (origin r) (Some airport)))"
    by (simp add: rows_of_def filter_empty_conv)
  show "direct_count con airport date = 0"
    using none by (auto simp add: direct_count_def filter_empty_conv)
  show "delayed_arrivals con airport date = []"
    using none by (auto simp add: delayed_arrivals_def filter_empty_conv)
  show "outbound_flights con airport date = []"
    using none by (auto simp add: outbound_flights_def filter_empty_conv)
qed

text \<open>
  Claim C8. When the snapshot has no row for the (airport, date), neither an arrival
  into the airport nor a departure from it on that date, \<open>calculate_cascade_impact\<close>
  returns the zero result: both flight counts and the passenger count are 0, the three
  amounts are 0.00 and the destination list is empty. The function is total on
  snapshots, so this is a normal return.
\<close>

theorem no_rows_zero_result:
  assumes "rows_of con airport date = []"
  shows "calculate_cascade_impact con airport date delay_minutes min_turnaround_minutes
           = \<lparr>origin_airport = airport,
              trigger_delay_minutes = delay_minutes,
              directly_affected_flights = 0,
              cascade_affected_flights = 0,
              total_affected_passengers = 0,
              estimated_passenger_cost = 0,
              estimated_airline_cost = 0,
              total_economic_impact = 0,
              affected_destinations = []\<rparr>"
proof -
  have "matched_pairs con airport date delay_minutes min_turnaround_minutes = []"
    by (simp add: matched_pairs_def joined_pairs_def no_rows_filters [OF assms])
  then have "cascade_query con airport date delay_minutes min_turnaround_minutes = []"
    by (simp add: cascade_query_def cascade_matches_def group_by_dest_def order_by_affected_desc_def)
  then show ?thesis
    by (simp add: calculate_cascade_impact_def Let_def no_rows_filters [OF assms]
          py_int_def py_round_zero)
qed

text \<open>\<open>hub_snapshot\<close> holds no flight into or out of SEA.\<close>

theorem no_rows_zero_result_witness:
  "rows_of hub_snapshot ''SEA'' ''2025-10-15'' = []
   \<and> calculate_cascade_impact hub_snapshot ''SEA'' ''2025-10-15'' 90 45
       = \<lparr>origin_airport = ''SEA'',
          trigger_delay_minutes = 90,
          directly_affected_flights = 0,
          cascade_affected_flights = 0,
          total_affected_passengers = 0,
          estimated_passenger_cost = 0,
          estimated_airline_cost = 0,
          total_economic_impact = 0,
          affected_destinations = []\<rparr>"
proof -
  have h: "rows_of hub_snapshot ''SEA'' ''2025-10-15'' = []"
    by code_simp
  from no_rows_zero_result [OF h, of 90 45] h show ?thesis by simp
qed

lemma product_empty_right: "List.product xs [] = []"
  by (induction xs) auto

text \<open>
  Claim C9. When the snapshot holds no arrival into the airport on the date with a
  non-null, positive arrival delay, both \<open>directly_affected_flights\<close> and
  \<open>cascade_affected_flights\<close> are 0.
\<close>

theorem no_delayed_inbound_zero_counts:
  assumes "filter (\<lambda>r. dest r = Some airport \<and> flightdate r = Some date
                        \<and> (case arrdelayminutes r of None \<Rightarrow> False | Some v \<Rightarrow> 0 < v)) con = []"
  shows "directly_affected_flights (calculate_cascade_impact con airport date delay_minutes min_turnaround_minutes) = 0
         \<and> cascade_affected_flights (calculate_cascade_impact con airport date delay_minutes min_turnaround_minutes) = 0"
proof -
  from assms have none: "\<And>r. r \<in> set con \<Longrightarrow>
      \<not> (dest r = Some airport \<and> flightdate r = Some date
          \<and> (case arrdelayminutes r of None \<Rightarrow> False | Some v \<Rightarrow> 0 < v))"
    by (simp add: filter_empty_conv)
  have d: "direct_count con airport date = 0"
    using none
    by (fastforce simp add: direct_count_def filter_empty_conv sql_eq_def sql_gt_def
          split: option.splits)
  have "delayed_arrivals con airport date = []"
    using none
    by (fastforce simp add: delayed_arrivals_def filter_empty_conv sql_eq_def sql_ge_def
          split: option.splits)
  then have "matched_pairs con airport date delay_minutes min_turnaround_minutes = []"
    by (simp add: matched_pairs_def joined_pairs_def product_empty_right)
  with d show ?thesis
    by (simp add: cascade_affected_eq directly_affected_eq)
qed

text \<open>
  In \<open>on_time_snapshot\<close> one arrival has delay 0 and the other has no recorded delay.
\<close>

theorem no_delayed_inbound_zero_counts_witness:
  "filter (\<lambda>r. dest r = Some ''ORD'' \<and> flightdate r = Some ''2025-10-15''
                \<and> (case arrdelayminutes r of None \<Rightarrow> False | Some v \<Rightarrow> 0 < v)) on_time_snapshot = []
   \<and> directly_affected_flights (calculate_cascade_impact on_time_snapshot ''ORD'' ''2025-10-15'' 90 45) = 0
   \<and> cascade_affected_flights (calculate_cascade_impact on_time_snapshot ''ORD'' ''2025-10-15'' 90 45) = 0"
proof -
  have h: "filter (\<lambda>r. dest r = Some ''ORD'' \<and> flightdate r = Some ''2025-10-15''
                \<and> (case arrdelayminutes r of None \<Rightarrow> False | Some v \<Rightarrow> 0 < v)) on_time_snapshot = []"
    by code_simp
  from no_delayed_inbound_zero_counts [OF h, of 90 45] h show ?thesis by simp
qed

section \<open>The 15-minute threshold of \<open>delayed_arrivals\<close>\<close>

text \<open>
  The source's candidate arrivals are the positively delayed ones with a delay of at
  least 15, and an accepted match needs a delay above a gap of at least 20.
\<close>

lemma product_filter_right:
  "List.product xs (filter Q ys) = filter (\<lambda>(x, y). Q y) (List.product xs ys)"
  by (induction xs) (auto simp add: filter_map comp_def)

lemma delayed_arrivals_as_filter:
  "delayed_arrivals con airport date
     = filter (\<lambda>a. sql_ge (da_arr_delay a) (Some 15)) (positive_delay_arrivals con airport date)"
proof -
  have "\<And>v::real. 15 \<le> v \<Longrightarrow> 0 < v" by simp
  then show ?thesis
    unfolding delayed_arrivals_def positive_delay_arrivals_def filter_map comp_def filter_filter
    by (auto intro!: arg_cong [where f = "map _"] filter_cong
          simp add: sql_ge_def sql_gt_def split: option.splits)
qed

lemma match_accepted_delay_over_20:
  assumes "match_accepted upper o_row a_row"
  shows "\<exists>dly. da_arr_delay a_row = Some dly \<and> 20 < dly"
proof -
  from match_accepted_D [OF assms] obtain dep arr dly where
    "da_arr_delay a_row = Some dly" "20 \<le> dep - arr" "real_of_int (dep - arr) < dly"
    by blast
  moreover from this have "(20::real) \<le> real_of_int (dep - arr)" by linarith
  ultimately show ?thesis by auto
qed

lemma matched_pairs_any_delay_eq:
  "matched_pairs con airport date d mt = matched_pairs_any_delay con airport date d mt"
proof -
  have "\<And>o_row a_row. match_accepted (upper_gap d mt) o_row a_row
          \<Longrightarrow> sql_ge (da_arr_delay a_row) (Some 15)"
    using match_accepted_delay_over_20 by (fastforce simp add: sql_ge_def)
  then show ?thesis
    unfolding matched_pairs_def matched_pairs_any_delay_def joined_pairs_def
      delayed_arrivals_as_filter product_filter_right filter_filter
    by (intro filter_cong) auto
qed

text \<open>
  Claim C10. Every accepted match has an inbound delay strictly above 20 minutes;
  hence taking the arrivals with a delay of at least 15 as candidates, as the source
  does, gives exactly the matches that all arrivals with a positive delay give, and with
  them the same \<open>cascade_affected_flights\<close> and the same per-destination rows (count and
  the two mean delays).
\<close>

theorem threshold_15_keeps_all_matches:
  "(\<forall>p \<in> set (matched_pairs con airport date delay_minutes min_turnaround_minutes).
      \<exists>dly. cm_inbound_delay (select_match p) = Some dly \<and> 20 < dly)
   \<and> matched_pairs con airport date delay_minutes min_turnaround_minutes
       = matched_pairs_any_delay con airport date delay_minutes min_turnaround_minutes
   \<and> cascade_affected_flights (calculate_cascade_impact con airport date delay_minutes min_turnaround_minutes)
       = int (length (matched_pairs_any_delay con airport date delay_minutes min_turnaround_minutes))
   \<and> cascade_query con airport date delay_minutes min_turnaround_minutes
       = cascade_query_any_delay con airport date delay_minutes min_turnaround_minutes"
proof -
  have "\<exists>dly. cm_inbound_delay (select_match p) = Some dly \<and> 20 < dly"
    if "p \<in> set (matched_pairs con airport date delay_minutes min_turnaround_minutes)" for p
  proof -
    obtain o_row a_row where p: "p = (o_row, a_row)" by (cases p)
    with that have "match_accepted (upper_gap delay_minutes min_turnaround_minutes) o_row a_row"
      by (simp add: matched_pairs_accepted)
    then show ?thesis
      using match_accepted_delay_over_20 by (simp add: p select_match_def)
  qed
  then show ?thesis
    by (simp add: cascade_affected_eq cascade_query_def cascade_query_any_delay_def
          cascade_matches_def matched_pairs_any_delay_eq [symmetric])
qed

text \<open>
  In \<open>small_delay_snapshot\<close> the arrival that is 10 minutes late is a candidate under
  the specification's wording only, and it is in no match.
\<close>

theorem threshold_15_keeps_all_matches_witness:
  "(\<lparr>ob_airline = Some ''AA'', ob_flight_num = Some 202, ob_outbound_dest = Some ''JFK'',
      ob_dep_minutes = Some 870, ob_depdelayminutes = Some 5\<rparr>,
    \<lparr>da_airline = Some ''AA'', da_arr_minutes = Some 840, da_arr_delay = Some 150,
      da_arrived_from = Some ''LAX''\<rparr>)
     \<in> set (matched_pairs small_delay_snapshot ''ORD'' ''2025-10-15'' 90 45)
   \<and> cm_inbound_delay (select_match
        (\<lparr>ob_airline = Some ''AA'', ob_flight_num = Some 202, ob_outbound_dest = Some ''JFK'',
           ob_dep_minutes = Some 870, ob_depdelayminutes = Some 5\<rparr>,
         \<lparr>da_airline = Some ''AA'', da_arr_minutes = Some 840, da_arr_delay = Some 150,
           da_arrived_from = Some ''LAX''\<rparr>)) = Some 150
   \<and> (20::real) < 150
   \<and> length (delayed_arrivals small_delay_snapshot ''ORD'' ''2025-10-15'') = 1
   \<and> length (positive_delay_arrivals small_delay_snapshot ''ORD'' ''2025-10-15'') = 2
   \<and> matched_pairs small_delay_snapshot ''ORD'' ''2025-10-15'' 90 45
       = matched_pairs_any_delay small_delay_snapshot ''ORD'' ''2025-10-15'' 90 45
   \<and> cascade_query small_delay_snapshot ''ORD'' ''2025-10-15'' 90 45
       = cascade_query_any_delay small_delay_snapshot ''ORD'' ''2025-10-15'' 90 45"
proof -
  let ?p = "(\<lparr>ob_airline = Some ''AA'', ob_flight_num = Some 202, ob_outbound_dest = Some ''JFK'',
      ob_dep_minutes = Some 870, ob_depdelayminutes = Some 5\<rparr>,
    \<lparr>da_airline = Some ''AA'', da_arr_minutes = Some 840, da_arr_delay = Some (150::real),
      da_arrived_from = Some ''LAX''\<rparr>)"
  have mem: "?p \<in> set (matched_pairs small_delay_snapshot ''ORD'' ''2025-10-15'' 90 45)"
    by code_simp
  have sel: "cm_inbound_delay (select_match ?p) = Some 150"
    by (simp add: select_match_def)
  have cand: "length (delayed_arrivals small_delay_snapshot ''ORD'' ''2025-10-15'') = 1"
    "length (positive_delay_arrivals small_delay_snapshot ''ORD'' ''2025-10-15'') = 2"
    by code_simp+
  from threshold_15_keeps_all_matches [of small_delay_snapshot "''ORD''" "''2025-10-15''" 90 45]
    mem sel cand
  show ?thesis by simp
qed

end
